theory Spec2Isabelle
  imports Complex_Main "HOL-Library.Multiset"
begin

section \<open>The PR assigner: \<^verbatim>\<open>src/pr-assigner/assign_assignees.js\<close>\<close>

text \<open>
  The script runs once per CI event. It reads its configuration from environment
  variables, fetches the pull request, loads the user map from a YAML file, filters the
  candidate pool, picks logins at random without replacement, asks the code-hosting API
  to add them and posts a chat message.

  The embedding is shallow. Everything the script receives from outside is an input of
  the model: the environment variables (\<open>env\<close>) and the answers of the outside world
  (\<open>world\<close>: the API response, the contents of the user-map file, the values returned by
  \<^verbatim>\<open>Math.random()\<close>, and whether the two writing calls succeed). Everything the script
  does to the outside is an output: the ordered trace of its external calls and console
  lines, and the exit status of the process.
\<close>

subsection \<open>Data model\<close>

type_synonym login = string

text \<open>
  One entry of the user map. A field that the YAML entry does not give is \<open>None\<close>
  (JavaScript \<^verbatim>\<open>undefined\<close>). The entries are objects, as the spec's data model and the
  README's \<^verbatim>\<open>user_map.yaml\<close> have it. A key with no value at all (YAML \<^verbatim>\<open>bob:\<close>, parsed as
  \<^verbatim>\<open>null\<close>) is not an entry of this type: on such a file the script throws a TypeError at
  \<^verbatim>\<open>v.assign\<close>, outside every \<^verbatim>\<open>try\<close>, and that run is outside this model.
\<close>

record user_info =
  slack_id :: "string option"
  notify :: "bool option"
  assign :: "bool option"

text \<open>
  The user map is a JavaScript object. It is kept as the list \<^verbatim>\<open>Object.entries(userMap)\<close>
  returns, since the order of that list is the order of the candidate pool; the keys of
  an object are distinct. These are the object's own properties; the property read
  \<^verbatim>\<open>userMap[u]\<close> also sees what the object inherits (\<open>userMap_get\<close> below).
\<close>

type_synonym userMap = "(login \<times> user_info) list"

text \<open>
  The fields of the API's pull-request object that the script reads. \<open>assignees\<close> holds
  the logins \<^verbatim>\<open>pr.assignees.map(a => a.login)\<close>, \<open>user_login\<close> is \<^verbatim>\<open>pr.user.login\<close>.
\<close>

record pull_request =
  title :: string
  html_url :: string
  user_login :: login
  draft :: bool
  assignees :: "login list"

text \<open>
  The environment variables; an unset variable is \<open>None\<close>. \<open>repo\<close> is the second
  component of \<^verbatim>\<open>GITHUB_REPOSITORY.split("/")\<close>; the CI platform always sets that
  variable, and the script cannot start without it.
\<close>

record env =
  repo :: string
  prNumber :: "string option"
  eventType :: "string option"
  removedAssignee :: "string option"
  SLACK_WEBHOOK :: "string option"

text \<open>
  What \<^verbatim>\<open>fs.readFile\<close> followed by \<^verbatim>\<open>yaml.parse\<close> gives: the read throws, the parse throws,
  or a document is returned. The document is \<^verbatim>\<open>null\<close> (an empty file), or a value whose
  \<^verbatim>\<open>users\<close> property is a map or is missing.
\<close>

datatype yaml_doc = YNull | YDoc "userMap option"

datatype file_result = ReadError | ParseError | Parsed yaml_doc

text \<open>
  The outside world of one run. \<open>pr_response\<close> is \<open>None\<close> when the GET request throws.
  \<open>random k\<close> is the value of the \<open>k\<close>-th call of \<^verbatim>\<open>Math.random()\<close>, counted from 0; it is
  a real number, and the theorems assume it lies in \<open>[0, 1)\<close>, which makes
  \<^verbatim>\<open>Math.floor(Math.random() * n)\<close> an index below \<open>n\<close>, as it is for JavaScript's doubles.
  The two Octokit requests throw on an HTTP error status as on a network error, so for
  them only "returns" and "throws" are told apart: \<open>pr_response\<close>, and \<open>assign_ok\<close> for
  the add-assignees POST. The webhook POST is made with \<^verbatim>\<open>fetch\<close>, whose promise rejects on
  a network error and resolves with a response for every HTTP status, 4xx and 5xx
  included; \<open>webhook_response\<close> is that outcome.
\<close>

datatype fetch_result = Rejected | Responded nat

record world =
  pr_response :: "pull_request option"
  user_map_file :: file_result
  random :: "nat \<Rightarrow> real"
  assign_ok :: bool
  webhook_response :: fetch_result

text \<open>Whether the awaited \<^verbatim>\<open>fetch\<close> returned, with a response of whatever status.\<close>

definition webhook_ok :: "world \<Rightarrow> bool" where
  "webhook_ok w = (case webhook_response w of Rejected \<Rightarrow> False | Responded status \<Rightarrow> True)"

text \<open>The console lines of the script, one constructor per call site.\<close>

datatype console =
    ErrLoadUserMap
  | ErrGetPR
  | ErrAssign
  | ErrSlack
  | WarnEmptyUserMap
  | WarnNoWebhook
  | LogEligible "login list"
  | LogExcluding string
  | LogCandidates "login list"
  | LogAvailable "login list"
  | LogMsg string
  | LogEnoughRemain nat

datatype event =
    GetPR
  | ReadUserMap
  | AddAssignees "login list"
  | WebhookPost string string
  | Console console

text \<open>
  The result of a run: what it did, in order, and the exit status (1 after
  \<^verbatim>\<open>process.exit(1)\<close>, 0 when the script runs to its end).
\<close>

record run =
  trace :: "event list"
  exit_status :: nat

subsection \<open>JavaScript helpers\<close>

text \<open>Truthiness of a string that may be \<^verbatim>\<open>undefined\<close> or \<^verbatim>\<open>null\<close>.\<close>

definition truthy :: "string option \<Rightarrow> bool" where
  "truthy s = (case s of None \<Rightarrow> False | Some t \<Rightarrow> t \<noteq> [])"

text \<open>A value inside a template literal.\<close>

definition js_str :: "string option \<Rightarrow> string" where
  "js_str s = (case s of None \<Rightarrow> ''undefined'' | Some t \<Rightarrow> t)"

text \<open>\<^verbatim>\<open>Array.prototype.join\<close>.\<close>

fun join :: "string \<Rightarrow> string list \<Rightarrow> string" where
  "join sep [] = []"
| "join sep [x] = x"
| "join sep (x # y # ys) = x @ sep @ join sep (y # ys)"

text \<open>\<^verbatim>\<open>pool.splice(idx, 1)\<close>: the list that remains.\<close>

definition splice1 :: "nat \<Rightarrow> 'a list \<Rightarrow> 'a list" where
  "splice1 idx pool = take idx pool @ drop (Suc idx) pool"

subsection \<open>The functions of the script\<close>

definition getUserMap :: "world \<Rightarrow> event list \<times> userMap" where
  "getUserMap w =
     (case user_map_file w of
        ReadError \<Rightarrow> ([ReadUserMap, Console ErrLoadUserMap], [])
      | ParseError \<Rightarrow> ([ReadUserMap, Console ErrLoadUserMap], [])
      | Parsed YNull \<Rightarrow> ([ReadUserMap, Console ErrLoadUserMap], [])
      | Parsed (YDoc None) \<Rightarrow> ([ReadUserMap], [])
      | Parsed (YDoc (Some users)) \<Rightarrow> ([ReadUserMap], users))"

definition getPRDetails :: "world \<Rightarrow> pull_request option" where
  "getPRDetails w = pr_response w"

text \<open>
  The second component is \<open>None\<close> when the function has called \<^verbatim>\<open>process.exit(1)\<close>.
\<close>

definition assignPRsToUsers ::
  "world \<Rightarrow> login list \<Rightarrow> pull_request \<Rightarrow> event list \<times> login list option" where
  "assignPRsToUsers w newAssignees currentPR =
     (let currentAssignees = assignees currentPR;
          assigneesToAdd = filter (\<lambda>a. a \<notin> set currentAssignees) newAssignees
      in if length assigneesToAdd > 0 then
           (if assign_ok w then ([AddAssignees assigneesToAdd], Some assigneesToAdd)
            else ([AddAssignees assigneesToAdd, Console ErrAssign], None))
         else ([], Some []))"

text \<open>
  The property read \<^verbatim>\<open>userMap[u]\<close>. The user map is a plain object (from \<^verbatim>\<open>yaml.parse\<close>, or
  the literal \<^verbatim>\<open>{}\<close>), so a name that is not one of its own keys is looked up in
  \<^verbatim>\<open>Object.prototype\<close>. The members found there are functions (for \<^verbatim>\<open>__proto__\<close> the
  prototype object itself): truthy values without a \<^verbatim>\<open>slack_id\<close>, \<^verbatim>\<open>notify\<close> or \<^verbatim>\<open>assign\<close>
  property. \<open>None\<close> is \<^verbatim>\<open>undefined\<close>.
\<close>

definition object_prototype_keys :: "string list" where
  "object_prototype_keys =
     [''constructor'', ''hasOwnProperty'', ''isPrototypeOf'', ''propertyIsEnumerable'',
      ''toLocaleString'', ''toString'', ''valueOf'', ''__proto__'',
      ''__defineGetter__'', ''__defineSetter__'', ''__lookupGetter__'', ''__lookupSetter__'']"

definition inherited_member :: user_info where
  "inherited_member = \<lparr>slack_id = None, notify = None, assign = None\<rparr>"

definition userMap_get :: "userMap \<Rightarrow> string \<Rightarrow> user_info option" where
  "userMap_get userMap u =
     (case map_of userMap u of
        Some info \<Rightarrow> Some info
      | None \<Rightarrow> if u \<in> set object_prototype_keys then Some inherited_member else None)"

definition mention1 :: "userMap \<Rightarrow> login \<Rightarrow> string" where
  "mention1 userMap u =
     (case userMap_get userMap u of
        None \<Rightarrow> ''@'' @ u
      | Some info \<Rightarrow>
          if notify info = Some False then ''@'' @ u
          else ''<@'' @ js_str (slack_id info) @ ''>'')"

definition mention :: "login list \<Rightarrow> userMap \<Rightarrow> string" where
  "mention users userMap = join '' '' (map (mention1 userMap) users)"

text \<open>
  The second component tells whether the process is still running. The response of
  \<^verbatim>\<open>fetch\<close> is awaited and dropped: its status is not read.
\<close>

definition notifySlack :: "env \<Rightarrow> world \<Rightarrow> string \<Rightarrow> event list \<times> bool" where
  "notifySlack e w text =
     (if \<not> truthy (SLACK_WEBHOOK e) then ([Console WarnNoWebhook], True)
      else (case webhook_response w of
              Responded status \<Rightarrow> ([WebhookPost (js_str (SLACK_WEBHOOK e)) text], True)
            | Rejected \<Rightarrow>
                ([WebhookPost (js_str (SLACK_WEBHOOK e)) text, Console ErrSlack], False)))"

subsection \<open>The main routine, piece by piece\<close>

definition allUsers :: "userMap \<Rightarrow> login list" where
  "allUsers userMap = map fst (filter (\<lambda>(k, v). assign v \<noteq> Some False) userMap)"

definition candidates :: "env \<Rightarrow> pull_request \<Rightarrow> userMap \<Rightarrow> login list" where
  "candidates e pr userMap =
     (let author = user_login pr;
          cands = filter (\<lambda>u. u \<noteq> author) (allUsers userMap)
      in if eventType e = Some ''unassigned'' \<and> truthy (removedAssignee e)
         then filter (\<lambda>u. Some u \<noteq> removedAssignee e) cands
         else cands)"

definition shouldAssign :: "env \<Rightarrow> pull_request \<Rightarrow> bool" where
  "shouldAssign e pr =
     ((eventType e = Some ''opened'' \<and> \<not> draft pr) \<or>
      eventType e = Some ''ready_for_review'' \<or>
      eventType e = Some ''unassigned'')"

definition needed :: "pull_request \<Rightarrow> int" where
  "needed pr = 2 - int (length (assignees pr))"

definition available :: "env \<Rightarrow> pull_request \<Rightarrow> userMap \<Rightarrow> login list" where
  "available e pr userMap =
     filter (\<lambda>u. u \<notin> set (assignees pr)) (candidates e pr userMap)"

text \<open>
  The \<^verbatim>\<open>while\<close> loop that fills \<open>toAdd\<close>. The loop calls \<^verbatim>\<open>Math.random()\<close> once per
  iteration and nothing else in the script calls it, so the draw made while \<open>toAdd\<close>
  holds \<open>k\<close> logins is the \<open>k\<close>-th one.
\<close>

function select_loop :: "(nat \<Rightarrow> real) \<Rightarrow> int \<Rightarrow> login list \<Rightarrow> login list \<Rightarrow> login list" where
  "select_loop rnd n pool toAdd =
     (if int (length toAdd) < n \<and> length pool > 0 then
        select_loop rnd n
          (splice1 (nat \<lfloor>rnd (length toAdd) * real (length pool)\<rfloor>) pool)
          (toAdd @ [pool ! nat \<lfloor>rnd (length toAdd) * real (length pool)\<rfloor>])
      else toAdd)"
  by pat_completeness auto
termination
  by (relation "measure (\<lambda>(rnd, n, pool, toAdd). nat (n - int (length toAdd)))") auto

declare select_loop.simps [simp del]

text \<open>
  The notification texts. Strings are byte lists, so the three signs that open the
  messages are written as their UTF-8 bytes: the warning sign (U+26A0 U+FE0F), the
  two-people sign (U+1F465) and the exclamation mark (U+2757 U+FE0F).
\<close>

definition warning_sign :: string where
  "warning_sign = [CHR 0xE2, CHR 0x9A, CHR 0xA0, CHR 0xEF, CHR 0xB8, CHR 0x8F]"

definition people_sign :: string where
  "people_sign = [CHR 0xF0, CHR 0x9F, CHR 0x91, CHR 0xA5]"

definition exclamation_sign :: string where
  "exclamation_sign = [CHR 0xE2, CHR 0x9D, CHR 0x97, CHR 0xEF, CHR 0xB8, CHR 0x8F]"

definition prLink :: "pull_request \<Rightarrow> string" where
  "prLink pr = ''<'' @ html_url pr @ ''|'' @ title pr @ ''>''"

definition msg_removed_one :: "env \<Rightarrow> pull_request \<Rightarrow> userMap \<Rightarrow> login list \<Rightarrow> string" where
  "msg_removed_one e pr userMap addedAssignees =
     warning_sign @ '' Assignee removed from PR #'' @ js_str (prNumber e) @ '' '' @ prLink pr
     @ '' in `'' @ repo e @ ''`. Added '' @ mention addedAssignees userMap
     @ '' to meet assignment requirements.''"

definition msg_removed_many :: "env \<Rightarrow> pull_request \<Rightarrow> userMap \<Rightarrow> login list \<Rightarrow> string" where
  "msg_removed_many e pr userMap addedAssignees =
     warning_sign @ '' Assignees removed from PR #'' @ js_str (prNumber e) @ '' '' @ prLink pr
     @ '' in `'' @ repo e @ ''`. Added '' @ mention addedAssignees userMap
     @ '' to meet assignment requirements.''"

definition msg_update :: "env \<Rightarrow> pull_request \<Rightarrow> userMap \<Rightarrow> login list \<Rightarrow> string" where
  "msg_update e pr userMap addedAssignees =
     people_sign @ '' Assignee update for PR #'' @ js_str (prNumber e) @ '' '' @ prLink pr
     @ '' in `'' @ repo e @ ''`: '' @ mention addedAssignees userMap @ ''.''"

definition msg_no_candidates :: "env \<Rightarrow> pull_request \<Rightarrow> string" where
  "msg_no_candidates e pr =
     exclamation_sign @ '' Assignees needed for PR #'' @ js_str (prNumber e) @ '' '' @ prLink pr
     @ '' in `'' @ repo e @ ''` but no available candidates to assign.''"

text \<open>
  The message chosen after a successful call of \<open>assignPRsToUsers\<close>; \<open>None\<close> is the
  initial \<^verbatim>\<open>null\<close> of \<^verbatim>\<open>msg\<close>.
\<close>

definition msg_added ::
  "env \<Rightarrow> pull_request \<Rightarrow> userMap \<Rightarrow> login list \<Rightarrow> login list \<Rightarrow> string option" where
  "msg_added e pr userMap toAdd addedAssignees =
     (if length addedAssignees > 0 then
        (if eventType e = Some ''unassigned'' \<and> length toAdd = 1
           then Some (msg_removed_one e pr userMap addedAssignees)
         else if eventType e = Some ''unassigned''
           then Some (msg_removed_many e pr userMap addedAssignees)
         else Some (msg_update e pr userMap addedAssignees))
      else None)"

text \<open>The last statement of the block: \<^verbatim>\<open>if (msg) { console.log(msg); await notifySlack(msg); }\<close>.\<close>

definition send_msg :: "env \<Rightarrow> world \<Rightarrow> string option \<Rightarrow> event list \<times> bool" where
  "send_msg e w msg =
     (if truthy msg then
        (case notifySlack e w (js_str msg) of
           (evs, alive) \<Rightarrow> (Console (LogMsg (js_str msg)) # evs, alive))
      else ([], True))"

text \<open>
  The body of \<^verbatim>\<open>if (needed > 0)\<close>. The result is the events of the block and whether
  the process is still running at its end.
\<close>

definition assign_block ::
  "env \<Rightarrow> world \<Rightarrow> pull_request \<Rightarrow> userMap \<Rightarrow> event list \<times> bool" where
  "assign_block e w pr userMap =
     (let avail = available e pr userMap;
          toAdd = select_loop (random w) (needed pr) avail []
      in if length toAdd > 0 then
           (case assignPRsToUsers w toAdd pr of
              (evs, None) \<Rightarrow> (Console (LogAvailable avail) # evs, False)
            | (evs, Some addedAssignees) \<Rightarrow>
                (case send_msg e w (msg_added e pr userMap toAdd addedAssignees) of
                   (evs', alive) \<Rightarrow> (Console (LogAvailable avail) # evs @ evs', alive)))
         else if needed pr > 0 \<and> length avail = 0 then
           (case send_msg e w (Some (msg_no_candidates e pr)) of
              (evs', alive) \<Rightarrow> (Console (LogAvailable avail) # evs', alive))
         else
           (case send_msg e w None of
              (evs', alive) \<Rightarrow> (Console (LogAvailable avail) # evs', alive)))"

text \<open>The console lines between the loading of the user map and \<^verbatim>\<open>shouldAssign\<close>.\<close>

definition prelude :: "env \<Rightarrow> pull_request \<Rightarrow> userMap \<Rightarrow> event list" where
  "prelude e pr userMap =
     (if length userMap = 0 then [Console WarnEmptyUserMap] else [])
     @ [Console (LogEligible (allUsers userMap))]
     @ (if eventType e = Some ''unassigned'' \<and> truthy (removedAssignee e)
        then [Console (LogExcluding (js_str (removedAssignee e)))] else [])
     @ [Console (LogCandidates (candidates e pr userMap))]"

text \<open>The script: the anonymous \<^verbatim>\<open>async\<close> function at the end of the file.\<close>

definition main :: "env \<Rightarrow> world \<Rightarrow> run" where
  "main e w =
     (case getPRDetails w of
        None \<Rightarrow> \<lparr>trace = [GetPR, Console ErrGetPR], exit_status = 1\<rparr>
      | Some pr \<Rightarrow>
          (case getUserMap w of
             (evs_map, userMap) \<Rightarrow>
               (if shouldAssign e pr then
                  (if needed pr > 0 then
                     (case assign_block e w pr userMap of
                        (evs, alive) \<Rightarrow>
                          \<lparr>trace = GetPR # evs_map @ prelude e pr userMap @ evs,
                           exit_status = (if alive then 0 else 1)\<rparr>)
                   else if eventType e = Some ''unassigned'' \<and> length (assignees pr) \<ge> 2 then
                     \<lparr>trace = GetPR # evs_map @ prelude e pr userMap
                               @ [Console (LogEnoughRemain (length (assignees pr)))],
                      exit_status = 0\<rparr>
                   else \<lparr>trace = GetPR # evs_map @ prelude e pr userMap, exit_status = 0\<rparr>)
                else \<lparr>trace = GetPR # evs_map @ prelude e pr userMap, exit_status = 0\<rparr>)))"

subsection \<open>Reading a trace\<close>

text \<open>
  Tests on an event: is it the GET, the add-assignees call, the webhook POST, the line
  that prints a notification message?
\<close>

fun is_AddAssignees :: "event \<Rightarrow> bool" where
  "is_AddAssignees (AddAssignees xs) = True"
| "is_AddAssignees ev = False"

fun is_WebhookPost :: "event \<Rightarrow> bool" where
  "is_WebhookPost (WebhookPost url text) = True"
| "is_WebhookPost ev = False"

fun is_GetPR :: "event \<Rightarrow> bool" where
  "is_GetPR GetPR = True"
| "is_GetPR ev = False"

fun is_LogMsg :: "event \<Rightarrow> bool" where
  "is_LogMsg (Console (LogMsg m)) = True"
| "is_LogMsg ev = False"

subsection \<open>Example inputs\<close>

text \<open>
  The user map of the spec's examples, with two more entries: carol is not to be
  notified and erin is not to be assigned.
\<close>

definition example_info :: "string \<Rightarrow> user_info" where
  "example_info s = \<lparr>slack_id = Some s, notify = None, assign = None\<rparr>"

definition example_users :: userMap where
  "example_users =
     [(''alice'', example_info ''U1''),
      (''bob'', example_info ''U2''),
      (''carol'', \<lparr>slack_id = Some ''U3'', notify = Some False, assign = Some True\<rparr>),
      (''dave'', example_info ''U4''),
      (''erin'', \<lparr>slack_id = Some ''U5'', notify = Some True, assign = Some False\<rparr>)]"

definition example_pr :: "login list \<Rightarrow> pull_request" where
  "example_pr current =
     \<lparr>title = ''Fix'', html_url = ''https://example.org/pull/7'', user_login = ''alice'',
      draft = False, assignees = current\<rparr>"

definition example_env :: "string \<Rightarrow> env" where
  "example_env event =
     \<lparr>repo = ''automations'', prNumber = Some ''7'', eventType = Some event,
      removedAssignee = None, SLACK_WEBHOOK = Some ''https://example.org/hook''\<rparr>"

definition example_world :: "login list \<Rightarrow> world" where
  "example_world current =
     \<lparr>pr_response = Some (example_pr current),
      user_map_file = Parsed (YDoc (Some example_users)),
      random = (\<lambda>k. 1 / 2), assign_ok = True, webhook_response = Responded 200\<rparr>"

section \<open>The selection loop\<close>

lemma draw_index_less:
  assumes "0 \<le> r" "r < 1" "0 < n"
  shows "nat \<lfloor>r * real n\<rfloor> < n"
proof -
  have "r * real n < real n" using assms by simp
  then have "\<lfloor>r * real n\<rfloor> < int n" by (simp add: floor_less_iff)
  moreover have "0 \<le> \<lfloor>r * real n\<rfloor>" using assms by simp
  ultimately show ?thesis by (simp add: nat_less_iff)
qed

lemma mset_splice1:
  "idx < length pool \<Longrightarrow> add_mset (pool ! idx) (mset (splice1 idx pool)) = mset pool"
  unfolding splice1_def
  by (metis Cons_nth_drop_Suc append_take_drop_id mset.simps(2) union_mset_add_mset_right mset_append)

lemma length_splice1:
  "idx < length pool \<Longrightarrow> length (splice1 idx pool) = length pool - 1"
  unfolding splice1_def by simp

lemma select_loop_mset:
  assumes "\<forall>k. 0 \<le> rnd k \<and> rnd k < 1"
  shows "\<exists>rest. mset (select_loop rnd n pool toAdd) + mset rest = mset toAdd + mset pool"
  using assms
proof (induction rnd n pool toAdd rule: select_loop.induct)
  case (1 rnd n pool toAdd)
  show ?case
  proof (cases "int (length toAdd) < n \<and> length pool > 0")
    case True
    let ?i = "nat \<lfloor>rnd (length toAdd) * real (length pool)\<rfloor>"
    have i: "?i < length pool" using True "1.prems" by (simp add: draw_index_less)
    from "1.IH"[OF True "1.prems"] obtain rest where
      "mset (select_loop rnd n (splice1 ?i pool) (toAdd @ [pool ! ?i])) + mset rest
        = mset (toAdd @ [pool ! ?i]) + mset (splice1 ?i pool)" by blast
    then have "mset (select_loop rnd n pool toAdd) + mset rest = mset toAdd + mset pool"
      using True mset_splice1[OF i] by (subst select_loop.simps) simp
    then show ?thesis by blast
  next
    case False
    then have "select_loop rnd n pool toAdd = toAdd" by (subst select_loop.simps) auto
    then have "mset (select_loop rnd n pool toAdd) + mset pool = mset toAdd + mset pool" by simp
    then show ?thesis by blast
  qed
qed

lemma select_loop_length:
  assumes "\<forall>k. 0 \<le> rnd k \<and> rnd k < 1"
  shows "length (select_loop rnd n pool toAdd)
       = length toAdd + min (nat (n - int (length toAdd))) (length pool)"
  using assms
proof (induction rnd n pool toAdd rule: select_loop.induct)
  case (1 rnd n pool toAdd)
  show ?case
  proof (cases "int (length toAdd) < n \<and> length pool > 0")
    case True
    let ?i = "nat \<lfloor>rnd (length toAdd) * real (length pool)\<rfloor>"
    have i: "?i < length pool" using True "1.prems" by (simp add: draw_index_less)
    have "length (select_loop rnd n pool toAdd)
        = length (select_loop rnd n (splice1 ?i pool) (toAdd @ [pool ! ?i]))"
      using True by (subst select_loop.simps) simp
    also have "\<dots> = length (toAdd @ [pool ! ?i])
        + min (nat (n - int (length (toAdd @ [pool ! ?i])))) (length (splice1 ?i pool))"
      using "1.IH"[OF True "1.prems"] .
    also have "\<dots> = length toAdd + min (nat (n - int (length toAdd))) (length pool)"
      using True i by (simp add: length_splice1) linarith
    finally show ?thesis .
  next
    case False
    then have "select_loop rnd n pool toAdd = toAdd" by (subst select_loop.simps) auto
    with False show ?thesis by auto
  qed
qed

lemma select_loop_subset:
  assumes "\<forall>k. 0 \<le> rnd k \<and> rnd k < 1"
  shows "set (select_loop rnd n P []) \<subseteq> set P"
proof -
  from select_loop_mset[OF assms, of n P "[]"] obtain rest where
    "mset (select_loop rnd n P []) + mset rest = mset P" by auto
  then have "mset (select_loop rnd n P []) \<subseteq># mset P" by (metis mset_subset_eq_add_left)
  then show ?thesis by (metis set_mset_mono set_mset_mset)
qed


lemma select_loop_Nil: "select_loop rnd n [] toAdd = toAdd"
  by (subst select_loop.simps) simp

lemma distinct_of_mset_sub:
  assumes "mset xs + mset rest = mset ys" "distinct ys"
  shows "distinct xs"
proof -
  have "mset xs \<subseteq># mset ys" using assms(1) by (metis mset_subset_eq_add_left)
  then have "\<And>a. count (mset xs) a \<le> count (mset ys) a" by (simp add: mset_subset_eq_count)
  moreover have "\<And>a. count (mset ys) a \<le> 1" using assms(2) by (simp add: distinct_count_atmost_1)
  ultimately have le: "\<And>a. count (mset xs) a \<le> 1" using order_trans by blast
  have "count (mset xs) a = (if a \<in> set xs then 1 else 0)" for a
  proof (cases "a \<in> set xs")
    case True
    then have "count (mset xs) a \<noteq> 0" by simp
    then have "count (mset xs) a = 1" using le[of a] by arith
    then show ?thesis using True by (simp only: if_True)
  next
    case False
    then show ?thesis by simp
  qed
  then show ?thesis by (simp add: distinct_count_atmost_1)
qed

text \<open>
  Claim C1. For every candidate pool \<open>P\<close>, every required count \<open>n > 0\<close> and every
  sequence of random draws (each in \<open>[0, 1)\<close>, as \<^verbatim>\<open>Math.random()\<close> gives them), the loop
  started with an empty \<open>toAdd\<close> returns exactly \<open>min n |P|\<close> logins. They are drawn from
  \<open>P\<close> without replacement: as a multiset the result is contained in \<open>P\<close>, so no
  position of the pool is picked twice, and the logins are distinct when those of the
  pool are (the pool comes from the keys of an object, which are distinct).
\<close>

theorem select_loop_sample:
  assumes "\<forall>k. 0 \<le> rnd k \<and> rnd k < 1" and "0 < n"
  shows "int (length (select_loop rnd n P [])) = min n (int (length P))
       \<and> mset (select_loop rnd n P []) \<subseteq># mset P
       \<and> set (select_loop rnd n P []) \<subseteq> set P
       \<and> (distinct P \<longrightarrow> distinct (select_loop rnd n P []))"
proof -
  from select_loop_mset[OF assms(1), of n P "[]"] obtain rest where
    rest: "mset (select_loop rnd n P []) + mset rest = mset P" by auto
  have len: "int (length (select_loop rnd n P [])) = min n (int (length P))"
    using select_loop_length[OF assms(1), of n P "[]"] assms(2) by simp
  have sub: "mset (select_loop rnd n P []) \<subseteq># mset P"
    using rest by (metis mset_subset_eq_add_left)
  have "set (select_loop rnd n P []) \<subseteq> set P"
    using sub by (metis set_mset_mono set_mset_mset)
  moreover have "distinct P \<longrightarrow> distinct (select_loop rnd n P [])"
    using distinct_of_mset_sub[OF rest] by blast
  ultimately show ?thesis using len sub by blast
qed

text \<open>
  Two runs of the loop on three logins. With every draw equal to 1/2 and two logins asked
  for, the loop takes the middle login and then the second of the remaining two. With a
  first draw of 9/10, all later draws 0 and five logins asked for, it takes the last
  login, then the first, then the one that is left, and stops on the empty pool.
\<close>

theorem select_loop_sample_witness:
  "(\<forall>k. (0::real) \<le> (\<lambda>k. 1 / 2) k \<and> (\<lambda>k. 1 / 2) k < (1::real))
   \<and> (\<forall>k. (0::real) \<le> (\<lambda>k. if k = 0 then 9 / 10 else 0) k
           \<and> (\<lambda>k. if k = 0 then 9 / 10 else 0) k < (1::real))
   \<and> (0::int) < 2 \<and> (0::int) < 5
   \<and> distinct [''bob'', ''carol'', ''dave'']
   \<and> select_loop (\<lambda>k. 1 / 2) 2 [''bob'', ''carol'', ''dave''] [] = [''carol'', ''dave'']
   \<and> select_loop (\<lambda>k. if k = 0 then 9 / 10 else 0) 5 [''bob'', ''carol'', ''dave''] []
       = [''dave'', ''bob'', ''carol'']
   \<and> int (length (select_loop (\<lambda>k. 1 / 2) 2 [''bob'', ''carol'', ''dave''] [])) = 2
   \<and> int (length (select_loop (\<lambda>k. if k = 0 then 9 / 10 else 0) 5
                      [''bob'', ''carol'', ''dave''] [])) = 3
   \<and> distinct (select_loop (\<lambda>k. 1 / 2) 2 [''bob'', ''carol'', ''dave''] [])
   \<and> set (select_loop (\<lambda>k. if k = 0 then 9 / 10 else 0) 5 [''bob'', ''carol'', ''dave''] [])
       \<subseteq> set [''bob'', ''carol'', ''dave'']"
proof -
  have d: "\<forall>k. (0::real) \<le> (\<lambda>k. 1 / 2) k \<and> (\<lambda>k. 1 / 2) k < (1::real)" by simp
  have d': "\<forall>k. (0::real) \<le> (\<lambda>k. if k = 0 then 9 / 10 else 0) k
           \<and> (\<lambda>k. if k = 0 then 9 / 10 else 0) k < (1::real)" by simp
  have n2: "(0::int) < 2" and n5: "(0::int) < 5" by simp_all
  have di: "distinct [''bob'', ''carol'', ''dave'']" by simp
  have e: "select_loop (\<lambda>k. 1 / 2) 2 [''bob'', ''carol'', ''dave''] [] = [''carol'', ''dave'']"
    by (simp add: select_loop.simps splice1_def)
  have f: "select_loop (\<lambda>k. if k = 0 then 9 / 10 else 0) 5 [''bob'', ''carol'', ''dave''] []
       = [''dave'', ''bob'', ''carol'']"
    by (simp add: select_loop.simps splice1_def)
  note i1 = select_loop_sample[OF d n2, of "[''bob'', ''carol'', ''dave'']"]
  note i2 = select_loop_sample[OF d' n5, of "[''bob'', ''carol'', ''dave'']"]
  from i1 have c1: "int (length (select_loop (\<lambda>k. 1 / 2) 2 [''bob'', ''carol'', ''dave''] [])) = 2"
    by simp
  from i2 have c2: "int (length (select_loop (\<lambda>k. if k = 0 then 9 / 10 else 0) 5
                      [''bob'', ''carol'', ''dave''] [])) = 3"
    by simp
  from i1 di have c3: "distinct (select_loop (\<lambda>k. 1 / 2) 2 [''bob'', ''carol'', ''dave''] [])"
    by blast
  from i2 have c4: "set (select_loop (\<lambda>k. if k = 0 then 9 / 10 else 0) 5
                      [''bob'', ''carol'', ''dave''] []) \<subseteq> set [''bob'', ''carol'', ''dave'']"
    by blast
  from d d' n2 n5 di e f c1 c2 c3 c4 show ?thesis by blast
qed

section \<open>The shape of a run\<close>

lemma msg_nonempty [simp]:
  "msg_removed_one e pr userMap added \<noteq> []"
  "msg_removed_many e pr userMap added \<noteq> []"
  "msg_update e pr userMap added \<noteq> []"
  "msg_no_candidates e pr \<noteq> []"
  by (simp_all add: msg_removed_one_def msg_removed_many_def msg_update_def msg_no_candidates_def
        warning_sign_def people_sign_def exclamation_sign_def)


lemma send_msg_unfold:
  "send_msg e w m =
     (if truthy m then
        (if \<not> truthy (SLACK_WEBHOOK e) then
           ([Console (LogMsg (js_str m)), Console WarnNoWebhook], True)
         else if webhook_ok w then
           ([Console (LogMsg (js_str m)), WebhookPost (js_str (SLACK_WEBHOOK e)) (js_str m)], True)
         else ([Console (LogMsg (js_str m)), WebhookPost (js_str (SLACK_WEBHOOK e)) (js_str m),
                Console ErrSlack], False))
      else ([], True))"
  by (simp add: send_msg_def notifySlack_def webhook_ok_def split: fetch_result.splits)

lemma assignPRsToUsers_unfold:
  "assignPRsToUsers w toAdd pr =
     (if filter (\<lambda>a. a \<notin> set (assignees pr)) toAdd \<noteq> [] then
        (if assign_ok w
         then ([AddAssignees (filter (\<lambda>a. a \<notin> set (assignees pr)) toAdd)],
               Some (filter (\<lambda>a. a \<notin> set (assignees pr)) toAdd))
         else ([AddAssignees (filter (\<lambda>a. a \<notin> set (assignees pr)) toAdd), Console ErrAssign], None))
      else ([], Some []))"
  by (simp add: assignPRsToUsers_def Let_def)

text \<open>The shapes a message block can take.\<close>

lemma send_msg_Some_shape:
  assumes "m \<noteq> []"
  shows "(\<not> truthy (SLACK_WEBHOOK e) \<and>
            send_msg e w (Some m) = ([Console (LogMsg m), Console WarnNoWebhook], True))
       \<or> (truthy (SLACK_WEBHOOK e) \<and> webhook_ok w \<and>
            send_msg e w (Some m) = ([Console (LogMsg m), WebhookPost (js_str (SLACK_WEBHOOK e)) m], True))
       \<or> (truthy (SLACK_WEBHOOK e) \<and> \<not> webhook_ok w \<and>
            send_msg e w (Some m) =
              ([Console (LogMsg m), WebhookPost (js_str (SLACK_WEBHOOK e)) m, Console ErrSlack], False))"
  using assms by (simp add: send_msg_unfold truthy_def js_str_def)




lemma send_msg_no_AddAssignees [simp]:
  "filter is_AddAssignees (fst (send_msg e w m)) = []"
  by (simp add: send_msg_unfold)


lemma assign_block_shape:
  "(\<exists>av. assign_block e w pr userMap = ([Console (LogAvailable av)], True))
   \<or> (\<exists>av m. m \<noteq> [] \<and> assign_block e w pr userMap =
         (Console (LogAvailable av) # fst (send_msg e w (Some m)), snd (send_msg e w (Some m))))
   \<or> (\<exists>av A m. m \<noteq> [] \<and> assign_ok w \<and> assign_block e w pr userMap =
         (Console (LogAvailable av) # AddAssignees A # fst (send_msg e w (Some m)),
          snd (send_msg e w (Some m))))
   \<or> (\<exists>av A. \<not> assign_ok w \<and> assign_block e w pr userMap =
         ([Console (LogAvailable av), AddAssignees A, Console ErrAssign], False))"
proof -
  let ?T = "select_loop (random w) (needed pr) (available e pr userMap) []"
  let ?A = "filter (\<lambda>a. a \<notin> set (assignees pr)) ?T"
  consider (none) "?T = []" "\<not> (needed pr > 0 \<and> available e pr userMap = [])"
    | (nocand) "?T = []" "needed pr > 0 \<and> available e pr userMap = []"
    | (dup) "?T \<noteq> []" "?A = []"
    | (ok) "?T \<noteq> []" "?A \<noteq> []" "assign_ok w"
    | (fail) "?T \<noteq> []" "?A \<noteq> []" "\<not> assign_ok w"
    by blast
  then show ?thesis
  proof cases
    case none
    then have "assign_block e w pr userMap = ([Console (LogAvailable (available e pr userMap))], True)"
      by (auto simp: assign_block_def Let_def send_msg_unfold truthy_def)
    then show ?thesis by blast
  next
    case nocand
    then have "assign_block e w pr userMap =
       (Console (LogAvailable (available e pr userMap)) # fst (send_msg e w (Some (msg_no_candidates e pr))),
        snd (send_msg e w (Some (msg_no_candidates e pr))))"
      by (simp add: assign_block_def Let_def split: prod.splits)
    then show ?thesis using msg_nonempty(4) by blast
  next
    case dup
    then have "assign_block e w pr userMap = ([Console (LogAvailable (available e pr userMap))], True)"
      by (simp add: assign_block_def Let_def assignPRsToUsers_unfold msg_added_def send_msg_unfold truthy_def)
    then show ?thesis by blast
  next
    case ok
    have "\<exists>m. msg_added e pr userMap ?T ?A = Some m \<and> m \<noteq> []"
      using ok(2) by (simp add: msg_added_def)
    then obtain m where m: "msg_added e pr userMap ?T ?A = Some m" "m \<noteq> []" by blast
    have "assign_block e w pr userMap =
       (Console (LogAvailable (available e pr userMap)) # AddAssignees ?A # fst (send_msg e w (Some m)),
        snd (send_msg e w (Some m)))"
      using ok m(1) by (simp add: assign_block_def Let_def assignPRsToUsers_unfold split: prod.splits)
    then show ?thesis using m(2) ok(3) by blast
  next
    case fail
    then have "assign_block e w pr userMap =
       ([Console (LogAvailable (available e pr userMap)), AddAssignees ?A, Console ErrAssign], False)"
      by (simp add: assign_block_def Let_def assignPRsToUsers_unfold)
    then show ?thesis using fail(3) by blast
  qed
qed

lemma getUserMap_events:
  "ev \<in> set (fst (getUserMap w)) \<Longrightarrow> ev = ReadUserMap \<or> ev = Console ErrLoadUserMap"
  by (auto simp: getUserMap_def split: file_result.splits yaml_doc.splits option.splits)

lemma prelude_events:
  "ev \<in> set (prelude e pr userMap) \<Longrightarrow>
     ev = Console WarnEmptyUserMap \<or> ev = Console (LogEligible (allUsers userMap))
     \<or> ev = Console (LogExcluding (js_str (removedAssignee e)))
     \<or> ev = Console (LogCandidates (candidates e pr userMap))"
  by (auto simp: prelude_def split: if_splits)

text \<open>The block \<^verbatim>\<open>if (needed > 0) { ... }\<close> ends in one of eight ways.\<close>

lemma assign_block_forms:
  "(\<exists>av. assign_block e w pr userMap = ([Console (LogAvailable av)], True))
   \<or> (\<exists>av m. \<not> truthy (SLACK_WEBHOOK e) \<and> assign_block e w pr userMap =
          ([Console (LogAvailable av), Console (LogMsg m), Console WarnNoWebhook], True))
   \<or> (\<exists>av m. truthy (SLACK_WEBHOOK e) \<and> webhook_ok w \<and> assign_block e w pr userMap =
          ([Console (LogAvailable av), Console (LogMsg m),
            WebhookPost (js_str (SLACK_WEBHOOK e)) m], True))
   \<or> (\<exists>av m. truthy (SLACK_WEBHOOK e) \<and> \<not> webhook_ok w \<and> assign_block e w pr userMap =
          ([Console (LogAvailable av), Console (LogMsg m),
            WebhookPost (js_str (SLACK_WEBHOOK e)) m, Console ErrSlack], False))
   \<or> (\<exists>av A m. assign_ok w \<and> \<not> truthy (SLACK_WEBHOOK e) \<and> assign_block e w pr userMap =
          ([Console (LogAvailable av), AddAssignees A, Console (LogMsg m),
            Console WarnNoWebhook], True))
   \<or> (\<exists>av A m. assign_ok w \<and> truthy (SLACK_WEBHOOK e) \<and> webhook_ok w \<and> assign_block e w pr userMap =
          ([Console (LogAvailable av), AddAssignees A, Console (LogMsg m),
            WebhookPost (js_str (SLACK_WEBHOOK e)) m], True))
   \<or> (\<exists>av A m. assign_ok w \<and> truthy (SLACK_WEBHOOK e) \<and> \<not> webhook_ok w \<and> assign_block e w pr userMap =
          ([Console (LogAvailable av), AddAssignees A, Console (LogMsg m),
            WebhookPost (js_str (SLACK_WEBHOOK e)) m, Console ErrSlack], False))
   \<or> (\<exists>av A. \<not> assign_ok w \<and> assign_block e w pr userMap =
          ([Console (LogAvailable av), AddAssignees A, Console ErrAssign], False))"
  using assign_block_shape[of e w pr userMap]
proof (elim disjE exE conjE)
  fix av assume "assign_block e w pr userMap = ([Console (LogAvailable av)], True)"
  then show ?thesis by simp
next
  fix av m assume m: "m \<noteq> []" and a: "assign_block e w pr userMap =
       (Console (LogAvailable av) # fst (send_msg e w (Some m)), snd (send_msg e w (Some m)))"
  from send_msg_Some_shape[OF m, of e w] show ?thesis
  proof (elim disjE conjE)
    assume "\<not> truthy (SLACK_WEBHOOK e)"
      "send_msg e w (Some m) = ([Console (LogMsg m), Console WarnNoWebhook], True)"
    with a show ?thesis by simp
  next
    assume "truthy (SLACK_WEBHOOK e)" "webhook_ok w"
      "send_msg e w (Some m) = ([Console (LogMsg m), WebhookPost (js_str (SLACK_WEBHOOK e)) m], True)"
    with a show ?thesis by simp
  next
    assume "truthy (SLACK_WEBHOOK e)" "\<not> webhook_ok w"
      "send_msg e w (Some m) =
         ([Console (LogMsg m), WebhookPost (js_str (SLACK_WEBHOOK e)) m, Console ErrSlack], False)"
    with a show ?thesis by simp
  qed
next
  fix av A m assume m: "m \<noteq> []" and ok: "assign_ok w" and a: "assign_block e w pr userMap =
       (Console (LogAvailable av) # AddAssignees A # fst (send_msg e w (Some m)),
        snd (send_msg e w (Some m)))"
  from send_msg_Some_shape[OF m, of e w] show ?thesis
  proof (elim disjE conjE)
    assume "\<not> truthy (SLACK_WEBHOOK e)"
      "send_msg e w (Some m) = ([Console (LogMsg m), Console WarnNoWebhook], True)"
    with a ok show ?thesis by simp
  next
    assume "truthy (SLACK_WEBHOOK e)" "webhook_ok w"
      "send_msg e w (Some m) = ([Console (LogMsg m), WebhookPost (js_str (SLACK_WEBHOOK e)) m], True)"
    with a ok show ?thesis by simp
  next
    assume "truthy (SLACK_WEBHOOK e)" "\<not> webhook_ok w"
      "send_msg e w (Some m) =
         ([Console (LogMsg m), WebhookPost (js_str (SLACK_WEBHOOK e)) m, Console ErrSlack], False)"
    with a ok show ?thesis by simp
  qed
next
  fix av A assume "\<not> assign_ok w" "assign_block e w pr userMap =
       ([Console (LogAvailable av), AddAssignees A, Console ErrAssign], False)"
  then show ?thesis by simp
qed

text \<open>
  Every run that gets its pull request is a common head followed by one of ten tails.
\<close>

lemma main_forms:
  assumes "pr_response w = Some pr"
  shows "main e w = \<lparr>trace = GetPR # fst (getUserMap w) @ prelude e pr (snd (getUserMap w)), exit_status = 0\<rparr>
   \<or> (\<exists>n. main e w = \<lparr>trace = GetPR # fst (getUserMap w) @ prelude e pr (snd (getUserMap w)) @ [Console (LogEnoughRemain n)], exit_status = 0\<rparr>)
   \<or> (\<exists>av. main e w = \<lparr>trace = GetPR # fst (getUserMap w) @ prelude e pr (snd (getUserMap w)) @ [Console (LogAvailable av)], exit_status = 0\<rparr>)
   \<or> (\<exists>av m. \<not> truthy (SLACK_WEBHOOK e) \<and> main e w =
          \<lparr>trace = GetPR # fst (getUserMap w) @ prelude e pr (snd (getUserMap w)) @ [Console (LogAvailable av), Console (LogMsg m), Console WarnNoWebhook], exit_status = 0\<rparr>)
   \<or> (\<exists>av m. truthy (SLACK_WEBHOOK e) \<and> webhook_ok w \<and> main e w =
          \<lparr>trace = GetPR # fst (getUserMap w) @ prelude e pr (snd (getUserMap w)) @ [Console (LogAvailable av), Console (LogMsg m),
            WebhookPost (js_str (SLACK_WEBHOOK e)) m], exit_status = 0\<rparr>)
   \<or> (\<exists>av m. truthy (SLACK_WEBHOOK e) \<and> \<not> webhook_ok w \<and> main e w =
          \<lparr>trace = GetPR # fst (getUserMap w) @ prelude e pr (snd (getUserMap w)) @ [Console (LogAvailable av), Console (LogMsg m),
            WebhookPost (js_str (SLACK_WEBHOOK e)) m, Console ErrSlack], exit_status = 1\<rparr>)
   \<or> (\<exists>av A m. assign_ok w \<and> \<not> truthy (SLACK_WEBHOOK e) \<and> main e w =
          \<lparr>trace = GetPR # fst (getUserMap w) @ prelude e pr (snd (getUserMap w)) @ [Console (LogAvailable av), AddAssignees A, Console (LogMsg m),
            Console WarnNoWebhook], exit_status = 0\<rparr>)
   \<or> (\<exists>av A m. assign_ok w \<and> truthy (SLACK_WEBHOOK e) \<and> webhook_ok w \<and> main e w =
          \<lparr>trace = GetPR # fst (getUserMap w) @ prelude e pr (snd (getUserMap w)) @ [Console (LogAvailable av), AddAssignees A, Console (LogMsg m),
            WebhookPost (js_str (SLACK_WEBHOOK e)) m], exit_status = 0\<rparr>)
   \<or> (\<exists>av A m. assign_ok w \<and> truthy (SLACK_WEBHOOK e) \<and> \<not> webhook_ok w \<and> main e w =
          \<lparr>trace = GetPR # fst (getUserMap w) @ prelude e pr (snd (getUserMap w)) @ [Console (LogAvailable av), AddAssignees A, Console (LogMsg m),
            WebhookPost (js_str (SLACK_WEBHOOK e)) m, Console ErrSlack], exit_status = 1\<rparr>)
   \<or> (\<exists>av A. \<not> assign_ok w \<and> main e w =
          \<lparr>trace = GetPR # fst (getUserMap w) @ prelude e pr (snd (getUserMap w)) @ [Console (LogAvailable av), AddAssignees A, Console ErrAssign], exit_status = 1\<rparr>)"
proof -
  obtain evs_map userMap where g: "getUserMap w = (evs_map, userMap)"
    by (cases "getUserMap w")
  show ?thesis
  proof (cases "shouldAssign e pr")
    case False
    then have "main e w = \<lparr>trace = GetPR # fst (getUserMap w) @ prelude e pr (snd (getUserMap w)),
                 exit_status = 0\<rparr>"
      using assms g by (simp add: main_def getPRDetails_def)
    then show ?thesis by (rule disjI1)
  next
    case sa: True
    show ?thesis
    proof (cases "needed pr > 0")
      case True
      have m: "main e w = \<lparr>trace = GetPR # fst (getUserMap w) @ prelude e pr (snd (getUserMap w))
                   @ fst (assign_block e w pr userMap),
                 exit_status = (if snd (assign_block e w pr userMap) then 0 else 1)\<rparr>"
        using assms g sa True by (simp add: main_def getPRDetails_def split: prod.splits)
      from assign_block_forms[of e w pr userMap] show ?thesis
        by (elim disjE exE conjE) (simp_all add: m g)
    next
      case False
      show ?thesis
      proof (cases "eventType e = Some ''unassigned'' \<and> length (assignees pr) \<ge> 2")
        case True
        then have "main e w = \<lparr>trace = GetPR # fst (getUserMap w) @ prelude e pr (snd (getUserMap w))
                     @ [Console (LogEnoughRemain (length (assignees pr)))],
                 exit_status = 0\<rparr>"
          using assms g sa False by (simp add: main_def getPRDetails_def)
        then show ?thesis by blast
      next
        case nolog: False
        then have "main e w = \<lparr>trace = GetPR # fst (getUserMap w) @ prelude e pr (snd (getUserMap w)),
                 exit_status = 0\<rparr>"
          using assms g sa False by (auto simp: main_def getPRDetails_def)
        then show ?thesis by (rule disjI1)
      qed
    qed
  qed
qed

lemma getUserMap_clean [simp]:
  "GetPR \<notin> set (fst (getUserMap w))"
  "AddAssignees A \<notin> set (fst (getUserMap w))"
  "WebhookPost u t \<notin> set (fst (getUserMap w))"
  "Console (LogMsg m) \<notin> set (fst (getUserMap w))"
  "Console WarnNoWebhook \<notin> set (fst (getUserMap w))"
  "Console ErrAssign \<notin> set (fst (getUserMap w))"
  "Console ErrSlack \<notin> set (fst (getUserMap w))"
  "Console ErrGetPR \<notin> set (fst (getUserMap w))"
  "Console (LogAvailable av) \<notin> set (fst (getUserMap w))"
  "Console (LogEnoughRemain n) \<notin> set (fst (getUserMap w))"
  using getUserMap_events[of _ w] by blast+

lemma prelude_clean [simp]:
  "GetPR \<notin> set (prelude e pr userMap)"
  "ReadUserMap \<notin> set (prelude e pr userMap)"
  "AddAssignees A \<notin> set (prelude e pr userMap)"
  "WebhookPost u t \<notin> set (prelude e pr userMap)"
  "Console (LogMsg m) \<notin> set (prelude e pr userMap)"
  "Console WarnNoWebhook \<notin> set (prelude e pr userMap)"
  "Console ErrAssign \<notin> set (prelude e pr userMap)"
  "Console ErrSlack \<notin> set (prelude e pr userMap)"
  "Console ErrGetPR \<notin> set (prelude e pr userMap)"
  "Console ErrLoadUserMap \<notin> set (prelude e pr userMap)"
  "Console (LogAvailable av) \<notin> set (prelude e pr userMap)"
  "Console (LogEnoughRemain n) \<notin> set (prelude e pr userMap)"
  using prelude_events[of _ e pr userMap] by blast+

lemma head_filters [simp]:
  "filter is_AddAssignees (fst (getUserMap w)) = []"
  "filter is_WebhookPost (fst (getUserMap w)) = []"
  "filter is_GetPR (fst (getUserMap w)) = []"
  "filter is_AddAssignees (prelude e pr userMap) = []"
  "filter is_WebhookPost (prelude e pr userMap) = []"
  "filter is_GetPR (prelude e pr userMap) = []"
  by (auto simp: filter_empty_conv dest!: getUserMap_events prelude_events)

lemma main_None:
  "pr_response w = None \<Longrightarrow> main e w = \<lparr>trace = [GetPR, Console ErrGetPR], exit_status = 1\<rparr>"
  by (simp add: main_def getPRDetails_def)

lemma truthy_Some: "truthy s \<Longrightarrow> s = Some (js_str s) \<and> js_str s \<noteq> []"
  by (cases s) (simp_all add: truthy_def js_str_def)

lemma main_not_shouldAssign:
  assumes "pr_response w = Some pr" "\<not> shouldAssign e pr"
  shows "main e w = \<lparr>trace = GetPR # fst (getUserMap w) @ prelude e pr (snd (getUserMap w)),
                      exit_status = 0\<rparr>"
  using assms by (simp add: main_def getPRDetails_def split: prod.splits)

lemma main_enough:
  assumes "pr_response w = Some pr" "2 \<le> length (assignees pr)"
  shows "main e w = \<lparr>trace = GetPR # fst (getUserMap w) @ prelude e pr (snd (getUserMap w))
                        @ (if eventType e = Some ''unassigned''
                           then [Console (LogEnoughRemain (length (assignees pr)))] else []),
                      exit_status = 0\<rparr>"
  using assms by (auto simp: main_def getPRDetails_def needed_def shouldAssign_def split: prod.splits)

lemma main_selecting:
  assumes "pr_response w = Some pr" "shouldAssign e pr" "0 < needed pr"
  shows "main e w = \<lparr>trace = GetPR # fst (getUserMap w) @ prelude e pr (snd (getUserMap w))
                        @ fst (assign_block e w pr (snd (getUserMap w))),
                      exit_status = (if snd (assign_block e w pr (snd (getUserMap w))) then 0 else 1)\<rparr>"
  using assms by (simp add: main_def getPRDetails_def split: prod.splits)

subsection \<open>The pool and the selected logins\<close>

lemma available_set:
  "u \<in> set (available e pr userMap) \<Longrightarrow>
     u \<notin> set (assignees pr) \<and> u \<noteq> user_login pr \<and> u \<in> set (candidates e pr userMap)
     \<and> u \<in> set (allUsers userMap)"
  by (auto simp: available_def candidates_def Let_def split: if_splits)

lemma allUsers_entry:
  assumes "distinct (map fst userMap)" "u \<in> set (allUsers userMap)"
  shows "\<exists>info. map_of userMap u = Some info \<and> assign info \<noteq> Some False"
proof -
  from assms(2) obtain v where "(u, v) \<in> set userMap" "assign v \<noteq> Some False"
    by (auto simp: allUsers_def)
  with assms(1) show ?thesis by (auto simp: map_of_eq_Some_iff)
qed

lemma toAdd_not_current:
  assumes "\<forall>k. 0 \<le> random w k \<and> random w k < 1"
  shows "filter (\<lambda>a. a \<notin> set (assignees pr))
           (select_loop (random w) n (available e pr userMap) [])
         = select_loop (random w) n (available e pr userMap) []"
  using select_loop_subset[OF assms, of n "available e pr userMap"] available_set[of _ e pr userMap]
  by (auto simp: filter_id_conv)

lemma assign_block_AddAssignees:
  "AddAssignees sent \<in> set (fst (assign_block e w pr userMap)) \<Longrightarrow>
     sent = filter (\<lambda>a. a \<notin> set (assignees pr))
              (select_loop (random w) (needed pr) (available e pr userMap) []) \<and> sent \<noteq> []"
  by (auto simp: assign_block_def Let_def assignPRsToUsers_unfold send_msg_unfold split: if_splits)

lemma main_AddAssignees:
  assumes "AddAssignees sent \<in> set (trace (main e w))"
  shows "\<exists>pr. pr_response w = Some pr \<and> shouldAssign e pr \<and> 0 < needed pr \<and> sent \<noteq> [] \<and>
     sent = filter (\<lambda>a. a \<notin> set (assignees pr))
              (select_loop (random w) (needed pr) (available e pr (snd (getUserMap w))) [])"
proof (cases "pr_response w")
  case None
  with assms show ?thesis by (simp add: main_None)
next
  case (Some pr)
  show ?thesis
  proof (cases "shouldAssign e pr")
    case False
    from main_not_shouldAssign[OF Some False] assms show ?thesis by simp
  next
    case sa: True
    show ?thesis
    proof (cases "0 < needed pr")
      case True
      from main_selecting[OF Some sa True] assms
      have "AddAssignees sent \<in> set (fst (assign_block e w pr (snd (getUserMap w))))" by simp
      from assign_block_AddAssignees[OF this] Some sa True show ?thesis by auto
    next
      case False
      then have "2 \<le> length (assignees pr)" by (simp add: needed_def)
      from main_enough[OF Some this, of e] assms show ?thesis by (simp split: if_splits)
    qed
  qed
qed


subsection \<open>Example runs\<close>

lemmas example_defs = example_info_def example_users_def example_pr_def example_env_def example_world_def

lemmas run_defs = main_def getPRDetails_def getUserMap_def shouldAssign_def needed_def
  assign_block_def available_def candidates_def allUsers_def splice1_def
  assignPRsToUsers_def msg_added_def send_msg_def notifySlack_def truthy_def js_str_def prelude_def Let_def

lemma example_draws: "\<forall>k. 0 \<le> random (example_world current) k \<and> random (example_world current) k < 1"
  by (simp add: example_world_def)

lemma example_opened:
  "main (example_env ''opened'') (example_world []) =
     \<lparr>trace = [GetPR, ReadUserMap,
        Console (LogEligible [''alice'', ''bob'', ''carol'', ''dave'']),
        Console (LogCandidates [''bob'', ''carol'', ''dave'']),
        Console (LogAvailable [''bob'', ''carol'', ''dave'']),
        AddAssignees [''carol'', ''dave''],
        Console (LogMsg (msg_update (example_env ''opened'') (example_pr []) example_users [''carol'', ''dave''])),
        WebhookPost ''https://example.org/hook''
          (msg_update (example_env ''opened'') (example_pr []) example_users [''carol'', ''dave''])],
      exit_status = 0\<rparr>"
  by (simp add: run_defs example_defs select_loop.simps)

lemma example_unassigned:
  "main ((example_env ''unassigned'')\<lparr>removedAssignee := Some ''bob''\<rparr>) (example_world [''carol'']) =
     \<lparr>trace = [GetPR, ReadUserMap,
        Console (LogEligible [''alice'', ''bob'', ''carol'', ''dave'']),
        Console (LogExcluding ''bob''),
        Console (LogCandidates [''carol'', ''dave'']),
        Console (LogAvailable [''dave'']),
        AddAssignees [''dave''],
        Console (LogMsg (msg_removed_one ((example_env ''unassigned'')\<lparr>removedAssignee := Some ''bob''\<rparr>)
           (example_pr [''carol'']) example_users [''dave''])),
        WebhookPost ''https://example.org/hook''
          (msg_removed_one ((example_env ''unassigned'')\<lparr>removedAssignee := Some ''bob''\<rparr>)
           (example_pr [''carol'']) example_users [''dave''])],
      exit_status = 0\<rparr>"
  by (simp add: run_defs example_defs select_loop.simps)

lemma example_unassigned_candidates:
  "candidates ((example_env ''unassigned'')\<lparr>removedAssignee := Some ''bob''\<rparr>) (example_pr [''carol''])
     example_users = [''carol'', ''dave'']"
  by (simp add: candidates_def allUsers_def truthy_def example_defs)

lemma example_no_hook:
  "main ((example_env ''opened'')\<lparr>SLACK_WEBHOOK := None\<rparr>) (example_world []) =
     \<lparr>trace = [GetPR, ReadUserMap,
        Console (LogEligible [''alice'', ''bob'', ''carol'', ''dave'']),
        Console (LogCandidates [''bob'', ''carol'', ''dave'']),
        Console (LogAvailable [''bob'', ''carol'', ''dave'']),
        AddAssignees [''carol'', ''dave''],
        Console (LogMsg (msg_update ((example_env ''opened'')\<lparr>SLACK_WEBHOOK := None\<rparr>)
           (example_pr []) example_users [''carol'', ''dave''])),
        Console WarnNoWebhook],
      exit_status = 0\<rparr>"
  by (simp add: run_defs example_defs select_loop.simps)

lemma example_fetch_fails:
  "main (example_env ''opened'') ((example_world [])\<lparr>pr_response := None\<rparr>) =
     \<lparr>trace = [GetPR, Console ErrGetPR], exit_status = 1\<rparr>"
  by (simp add: run_defs example_defs)

lemma example_assign_fails:
  "main (example_env ''opened'') ((example_world [])\<lparr>assign_ok := False\<rparr>) =
     \<lparr>trace = [GetPR, ReadUserMap,
        Console (LogEligible [''alice'', ''bob'', ''carol'', ''dave'']),
        Console (LogCandidates [''bob'', ''carol'', ''dave'']),
        Console (LogAvailable [''bob'', ''carol'', ''dave'']),
        AddAssignees [''carol'', ''dave''],
        Console ErrAssign],
      exit_status = 1\<rparr>"
  by (simp add: run_defs example_defs select_loop.simps)

lemma example_webhook_fails:
  "main (example_env ''opened'') ((example_world [])\<lparr>webhook_response := Rejected\<rparr>) =
     \<lparr>trace = [GetPR, ReadUserMap,
        Console (LogEligible [''alice'', ''bob'', ''carol'', ''dave'']),
        Console (LogCandidates [''bob'', ''carol'', ''dave'']),
        Console (LogAvailable [''bob'', ''carol'', ''dave'']),
        AddAssignees [''carol'', ''dave''],
        Console (LogMsg (msg_update (example_env ''opened'') (example_pr []) example_users [''carol'', ''dave''])),
        WebhookPost ''https://example.org/hook''
          (msg_update (example_env ''opened'') (example_pr []) example_users [''carol'', ''dave'']),
        Console ErrSlack],
      exit_status = 1\<rparr>"
  by (simp add: run_defs example_defs select_loop.simps)

lemma example_webhook_500:
  "main (example_env ''opened'') ((example_world [])\<lparr>webhook_response := Responded 500\<rparr>) =
     \<lparr>trace = [GetPR, ReadUserMap,
        Console (LogEligible [''alice'', ''bob'', ''carol'', ''dave'']),
        Console (LogCandidates [''bob'', ''carol'', ''dave'']),
        Console (LogAvailable [''bob'', ''carol'', ''dave'']),
        AddAssignees [''carol'', ''dave''],
        Console (LogMsg (msg_update (example_env ''opened'') (example_pr []) example_users [''carol'', ''dave''])),
        WebhookPost ''https://example.org/hook''
          (msg_update (example_env ''opened'') (example_pr []) example_users [''carol'', ''dave''])],
      exit_status = 0\<rparr>"
  by (simp add: run_defs example_defs select_loop.simps)




lemma example_unassigned_two:
  "main (example_env ''unassigned'') (example_world [''bob'', ''carol'']) =
     \<lparr>trace = [GetPR, ReadUserMap,
        Console (LogEligible [''alice'', ''bob'', ''carol'', ''dave'']),
        Console (LogCandidates [''bob'', ''carol'', ''dave'']),
        Console (LogEnoughRemain 2)],
      exit_status = 0\<rparr>"
  by (simp add: run_defs example_defs)

lemma example_no_map:
  "main (example_env ''opened'') ((example_world [])\<lparr>user_map_file := ReadError\<rparr>) =
     \<lparr>trace = [GetPR, ReadUserMap, Console ErrLoadUserMap, Console WarnEmptyUserMap,
        Console (LogEligible []), Console (LogCandidates []), Console (LogAvailable []),
        Console (LogMsg (msg_no_candidates (example_env ''opened'') (example_pr []))),
        WebhookPost ''https://example.org/hook''
          (msg_no_candidates (example_env ''opened'') (example_pr []))],
      exit_status = 0\<rparr>"
  by (simp add: run_defs example_defs select_loop.simps)

section \<open>The guard\<close>

lemma LogMsg_clean [simp]:
  "filter is_LogMsg (fst (getUserMap w)) = []"
  "filter is_LogMsg (prelude e pr userMap) = []"
  by (auto simp: filter_empty_conv dest!: getUserMap_events prelude_events)





section \<open>Required additions\<close>





section \<open>The candidate pool\<close>

text \<open>
  Claim C2. Whatever the run sends to the add-assignees API is taken from the pool
  \<open>available\<close>, which is part of \<open>candidates\<close>: it does not contain the author of the pull
  request, it contains no login that is already an assignee, and every login in it has an
  entry in the user map whose \<open>assign\<close> field is not \<open>false\<close>. The keys of the user map
  are distinct, as the keys of an object are, and the draws lie in \<open>[0, 1)\<close>.
\<close>

theorem sent_logins_from_pool:
  assumes "\<forall>k. 0 \<le> random w k \<and> random w k < 1"
      and "distinct (map fst (snd (getUserMap w)))"
      and "AddAssignees sent \<in> set (trace (main e w))"
  shows "\<exists>pr. pr_response w = Some pr
       \<and> set sent \<subseteq> set (available e pr (snd (getUserMap w)))
       \<and> set (available e pr (snd (getUserMap w))) \<subseteq> set (candidates e pr (snd (getUserMap w)))
       \<and> user_login pr \<notin> set sent
       \<and> set sent \<inter> set (assignees pr) = {}
       \<and> (\<forall>u \<in> set sent. \<exists>info. map_of (snd (getUserMap w)) u = Some info
                                  \<and> assign info \<noteq> Some False)"
proof -
  let ?um = "snd (getUserMap w)"
  from main_AddAssignees[OF assms(3)] obtain pr where
    pr: "pr_response w = Some pr" and
    sent: "sent = filter (\<lambda>a. a \<notin> set (assignees pr))
              (select_loop (random w) (needed pr) (available e pr ?um) [])" by blast
  have sent': "sent = select_loop (random w) (needed pr) (available e pr ?um) []"
    using sent toAdd_not_current[OF assms(1)] by simp
  have sub: "set sent \<subseteq> set (available e pr ?um)"
    using sent' select_loop_subset[OF assms(1)] by simp
  have in_av: "\<And>u. u \<in> set sent \<Longrightarrow> u \<in> set (available e pr ?um)" using sub by blast
  have "set (available e pr ?um) \<subseteq> set (candidates e pr ?um)"
    using available_set[of _ e pr ?um] by blast
  moreover have "user_login pr \<notin> set sent"
    using in_av available_set[of "user_login pr" e pr ?um] by blast
  moreover have "set sent \<inter> set (assignees pr) = {}"
    using in_av available_set[of _ e pr ?um] by blast
  moreover have "\<forall>u \<in> set sent. \<exists>info. map_of ?um u = Some info \<and> assign info \<noteq> Some False"
    using in_av available_set[of _ e pr ?um] allUsers_entry[OF assms(2)] by blast
  ultimately show ?thesis using pr sub by blast
qed

text \<open>The run of the \<open>opened\<close> example sends carol and dave.\<close>

theorem sent_logins_from_pool_witness:
  "(\<forall>k. 0 \<le> random (example_world []) k \<and> random (example_world []) k < 1)
   \<and> distinct (map fst (snd (getUserMap (example_world []))))
   \<and> AddAssignees [''carol'', ''dave'']
        \<in> set (trace (main (example_env ''opened'') (example_world [])))
   \<and> (\<exists>pr. pr_response (example_world []) = Some pr
       \<and> set [''carol'', ''dave'']
            \<subseteq> set (available (example_env ''opened'') pr (snd (getUserMap (example_world []))))
       \<and> user_login pr \<notin> set [''carol'', ''dave'']
       \<and> set [''carol'', ''dave''] \<inter> set (assignees pr) = {}
       \<and> (\<forall>u \<in> set [''carol'', ''dave''].
             \<exists>info. map_of (snd (getUserMap (example_world []))) u = Some info
                    \<and> assign info \<noteq> Some False))"
proof -
  have a: "\<forall>k. 0 \<le> random (example_world []) k \<and> random (example_world []) k < 1"
    by (rule example_draws)
  have b: "distinct (map fst (snd (getUserMap (example_world []))))"
    by (simp add: getUserMap_def example_world_def example_users_def)
  have c: "AddAssignees [''carol'', ''dave'']
        \<in> set (trace (main (example_env ''opened'') (example_world [])))"
    by (simp add: example_opened)
  from sent_logins_from_pool[OF a b c] a b c show ?thesis by blast
qed

section \<open>The removed assignee\<close>

lemma msg_removedAssignee [simp]:
  "msg_removed_one (e\<lparr>removedAssignee := x\<rparr>) pr userMap A = msg_removed_one e pr userMap A"
  "msg_removed_many (e\<lparr>removedAssignee := x\<rparr>) pr userMap A = msg_removed_many e pr userMap A"
  "msg_update (e\<lparr>removedAssignee := x\<rparr>) pr userMap A = msg_update e pr userMap A"
  "msg_no_candidates (e\<lparr>removedAssignee := x\<rparr>) pr = msg_no_candidates e pr"
  by (simp_all add: msg_removed_one_def msg_removed_many_def msg_update_def msg_no_candidates_def)

lemma candidates_other_event:
  "eventType e \<noteq> Some ''unassigned'' \<Longrightarrow>
     candidates (e\<lparr>removedAssignee := x\<rparr>) pr userMap = candidates e pr userMap"
  by (simp add: candidates_def)

lemma available_other_event:
  "eventType e \<noteq> Some ''unassigned'' \<Longrightarrow>
     available (e\<lparr>removedAssignee := x\<rparr>) pr userMap = available e pr userMap"
  by (simp add: available_def candidates_other_event)

lemma prelude_other_event:
  "eventType e \<noteq> Some ''unassigned'' \<Longrightarrow>
     prelude (e\<lparr>removedAssignee := x\<rparr>) pr userMap = prelude e pr userMap"
  by (simp add: prelude_def candidates_other_event)

lemma send_msg_removedAssignee [simp]:
  "send_msg (e\<lparr>removedAssignee := x\<rparr>) w m = send_msg e w m"
  by (simp add: send_msg_unfold)

lemma msg_added_removedAssignee [simp]:
  "msg_added (e\<lparr>removedAssignee := x\<rparr>) pr userMap toAdd A = msg_added e pr userMap toAdd A"
  by (simp add: msg_added_def)

lemma assign_block_other_event:
  assumes "eventType e \<noteq> Some ''unassigned''"
  shows "assign_block (e\<lparr>removedAssignee := x\<rparr>) w pr userMap = assign_block e w pr userMap"
  unfolding assign_block_def available_other_event[OF assms] msg_added_removedAssignee
    send_msg_removedAssignee msg_removedAssignee
  by (rule refl)

lemma main_other_event:
  "eventType e \<noteq> Some ''unassigned'' \<Longrightarrow> main (e\<lparr>removedAssignee := x\<rparr>) w = main e w"
  by (simp add: main_def shouldAssign_def prelude_other_event assign_block_other_event
           split: option.splits prod.splits)

text \<open>
  Claim C5. When the event is \<open>unassigned\<close> and \<^verbatim>\<open>REMOVED_ASSIGNEE\<close> is set to a non-empty
  login, that login is not in \<open>candidates\<close> nor in \<open>available\<close>; the pool is the pool of
  the same run without the variable, with that login filtered out; and the login is in
  no add-assignees call of the run. For every other event type the value of the
  variable changes neither the pool nor anything else in the run.
\<close>

theorem removed_assignee_excluded:
  "(eventType e = Some ''unassigned'' \<and> removedAssignee e = Some r \<and> r \<noteq> [] \<longrightarrow>
      r \<notin> set (candidates e pr userMap)
      \<and> r \<notin> set (available e pr userMap)
      \<and> candidates e pr userMap
          = filter (\<lambda>u. u \<noteq> r) (candidates (e\<lparr>removedAssignee := None\<rparr>) pr userMap)
      \<and> ((\<forall>k. 0 \<le> random w k \<and> random w k < 1)
           \<and> AddAssignees sent \<in> set (trace (main e w)) \<longrightarrow> r \<notin> set sent))
   \<and> (eventType e \<noteq> Some ''unassigned'' \<longrightarrow>
      candidates (e\<lparr>removedAssignee := x\<rparr>) pr userMap = candidates e pr userMap
      \<and> available (e\<lparr>removedAssignee := x\<rparr>) pr userMap = available e pr userMap
      \<and> main (e\<lparr>removedAssignee := x\<rparr>) w = main e w)"
proof -
  have a: "eventType e = Some ''unassigned'' \<and> removedAssignee e = Some r \<and> r \<noteq> [] \<longrightarrow>
      r \<notin> set (candidates e pr userMap)
      \<and> r \<notin> set (available e pr userMap)
      \<and> candidates e pr userMap
          = filter (\<lambda>u. u \<noteq> r) (candidates (e\<lparr>removedAssignee := None\<rparr>) pr userMap)" for pr userMap
    by (auto simp: candidates_def available_def truthy_def Let_def intro: filter_cong)
  have b: "eventType e = Some ''unassigned'' \<and> removedAssignee e = Some r \<and> r \<noteq> [] \<longrightarrow>
       ((\<forall>k. 0 \<le> random w k \<and> random w k < 1)
           \<and> AddAssignees sent \<in> set (trace (main e w)) \<longrightarrow> r \<notin> set sent)"
  proof (intro impI)
    assume h: "eventType e = Some ''unassigned'' \<and> removedAssignee e = Some r \<and> r \<noteq> []"
      and g: "(\<forall>k. 0 \<le> random w k \<and> random w k < 1) \<and> AddAssignees sent \<in> set (trace (main e w))"
    then have d: "\<forall>k. 0 \<le> random w k \<and> random w k < 1" by blast
    from g main_AddAssignees[of sent e w] obtain pr' where
      "sent = filter (\<lambda>a. a \<notin> set (assignees pr'))
              (select_loop (random w) (needed pr') (available e pr' (snd (getUserMap w))) [])" by blast
    then have "set sent \<subseteq> set (available e pr' (snd (getUserMap w)))"
      using select_loop_subset[OF d, of "needed pr'" "available e pr' (snd (getUserMap w))"] by auto
    then show "r \<notin> set sent" using a[of pr' "snd (getUserMap w)"] h by blast
  qed
  from a[of pr userMap] b candidates_other_event[of e x pr userMap]
    available_other_event[of e x pr userMap] main_other_event[of e x w]
  show ?thesis by blast
qed

text \<open>
  The spec's second example: bob was removed and carol remains, so dave is added. And an
  \<open>opened\<close> event, on which the variable is ignored.
\<close>

theorem removed_assignee_excluded_witness:
  "eventType ((example_env ''unassigned'')\<lparr>removedAssignee := Some ''bob''\<rparr>) = Some ''unassigned''
   \<and> removedAssignee ((example_env ''unassigned'')\<lparr>removedAssignee := Some ''bob''\<rparr>) = Some ''bob''
   \<and> ''bob'' \<noteq> []
   \<and> ''bob'' \<notin> set (candidates ((example_env ''unassigned'')\<lparr>removedAssignee := Some ''bob''\<rparr>)
                        (example_pr [''carol'']) example_users)
   \<and> candidates ((example_env ''unassigned'')\<lparr>removedAssignee := Some ''bob''\<rparr>)
        (example_pr [''carol'']) example_users = [''carol'', ''dave'']
   \<and> (\<forall>k. 0 \<le> random (example_world [''carol'']) k \<and> random (example_world [''carol'']) k < 1)
   \<and> AddAssignees [''dave'']
       \<in> set (trace (main ((example_env ''unassigned'')\<lparr>removedAssignee := Some ''bob''\<rparr>)
                          (example_world [''carol''])))
   \<and> ''bob'' \<notin> set [''dave'']
   \<and> eventType (example_env ''opened'') \<noteq> Some ''unassigned''
   \<and> main ((example_env ''opened'')\<lparr>removedAssignee := Some ''bob''\<rparr>) (example_world [])
       = main (example_env ''opened'') (example_world [])"
proof -
  let ?e = "(example_env ''unassigned'')\<lparr>removedAssignee := Some ''bob''\<rparr>"
  have h1: "eventType ?e = Some ''unassigned''" by (simp add: example_env_def)
  have h2: "removedAssignee ?e = Some ''bob''" by simp
  have h3: "''bob'' \<noteq> []" by simp
  have h4: "eventType (example_env ''opened'') \<noteq> Some ''unassigned''" by (simp add: example_env_def)
  have h5: "AddAssignees [''dave''] \<in> set (trace (main ?e (example_world [''carol''])))"
    by (simp add: example_unassigned)
  note i1 = removed_assignee_excluded[where e = ?e and r = "''bob''" and pr = "example_pr [''carol'']"
      and userMap = example_users and w = "example_world [''carol'']" and sent = "[''dave'']"]
  note i2 = removed_assignee_excluded[where e = "example_env ''opened''" and x = "Some ''bob''"
      and w = "example_world []"]
  from i1 h1 h2 h3 have c1: "''bob'' \<notin> set (candidates ?e (example_pr [''carol'']) example_users)"
    by blast
  from i1 h1 h2 h3 h5 example_draws[of "[''carol'']"] have c2: "''bob'' \<notin> set [''dave'']" by blast
  from i2 h4 have c3: "main ((example_env ''opened'')\<lparr>removedAssignee := Some ''bob''\<rparr>) (example_world [])
       = main (example_env ''opened'') (example_world [])" by blast
  from h1 h2 h3 h4 h5 c1 c2 c3 example_unassigned_candidates example_draws[of "[''carol'']"]
  show ?thesis by blast
qed

section \<open>The messages\<close>



section \<open>Mentions\<close>







section \<open>The notification\<close>

text \<open>
  Claim C9. A webhook POST is attempted only when a message was produced (the script
  logs the message right before it calls \<open>notifySlack\<close>) and the webhook variable is set,
  to a non-empty string; the POST goes to that URL and carries that message, and with
  the variable set every produced message is posted. If a message was produced and the
  variable is unset or empty, the warning is printed, no POST is made and the run exits
  with status 0.
\<close>

theorem webhook_post_only_when:
  "(WebhookPost url text \<in> set (trace (main e w)) \<longrightarrow>
      SLACK_WEBHOOK e = Some url \<and> url \<noteq> [] \<and> Console (LogMsg text) \<in> set (trace (main e w)))
   \<and> (Console (LogMsg text) \<in> set (trace (main e w)) \<and> truthy (SLACK_WEBHOOK e) \<longrightarrow>
      WebhookPost (js_str (SLACK_WEBHOOK e)) text \<in> set (trace (main e w)))
   \<and> (Console (LogMsg text) \<in> set (trace (main e w)) \<and> \<not> truthy (SLACK_WEBHOOK e) \<longrightarrow>
      Console WarnNoWebhook \<in> set (trace (main e w))
      \<and> filter is_WebhookPost (trace (main e w)) = []
      \<and> exit_status (main e w) = 0)"
proof (cases "pr_response w")
  case None
  then show ?thesis by (simp add: main_None)
next
  case (Some pr)
  from main_forms[OF Some, of e] show ?thesis
    by (elim disjE exE conjE) (auto dest: truthy_Some)
qed

theorem webhook_post_only_when_witness:
  "WebhookPost ''https://example.org/hook''
      (msg_update (example_env ''opened'') (example_pr []) example_users [''carol'', ''dave''])
     \<in> set (trace (main (example_env ''opened'') (example_world [])))
   \<and> SLACK_WEBHOOK (example_env ''opened'') = Some ''https://example.org/hook''
   \<and> Console (LogMsg (msg_update (example_env ''opened'') (example_pr []) example_users
        [''carol'', ''dave'']))
     \<in> set (trace (main (example_env ''opened'') (example_world [])))
   \<and> Console (LogMsg (msg_update ((example_env ''opened'')\<lparr>SLACK_WEBHOOK := None\<rparr>)
        (example_pr []) example_users [''carol'', ''dave'']))
     \<in> set (trace (main ((example_env ''opened'')\<lparr>SLACK_WEBHOOK := None\<rparr>) (example_world [])))
   \<and> \<not> truthy (SLACK_WEBHOOK ((example_env ''opened'')\<lparr>SLACK_WEBHOOK := None\<rparr>))
   \<and> Console WarnNoWebhook
     \<in> set (trace (main ((example_env ''opened'')\<lparr>SLACK_WEBHOOK := None\<rparr>) (example_world [])))
   \<and> exit_status (main ((example_env ''opened'')\<lparr>SLACK_WEBHOOK := None\<rparr>) (example_world [])) = 0"
  using webhook_post_only_when[of "''https://example.org/hook''"
          "msg_update (example_env ''opened'') (example_pr []) example_users [''carol'', ''dave'']"
          "example_env ''opened''" "example_world []"]
        webhook_post_only_when[of "''https://example.org/hook''"
          "msg_update ((example_env ''opened'')\<lparr>SLACK_WEBHOOK := None\<rparr>) (example_pr [])
             example_users [''carol'', ''dave'']"
          "(example_env ''opened'')\<lparr>SLACK_WEBHOOK := None\<rparr>" "example_world []"]
  by (simp add: example_opened example_no_hook truthy_def)

section \<open>Failures and the exit status\<close>

text \<open>
  How the three calls fail. An Octokit request throws on a network error and on an HTTP
  error status alike; \<open>pr_response w = None\<close> and \<open>\<not> assign_ok w\<close> say that the request
  threw. \<^verbatim>\<open>fetch\<close> throws on a network error only (\<open>\<not> webhook_ok w\<close>); when the webhook
  answers with an HTTP error status the promise resolves, \<open>notifySlack\<close> drops the
  response, and the \<^verbatim>\<open>catch\<close> block does not run.
\<close>

lemma trace_suffix:
  "\<exists>pre. GetPR # a @ b @ [x, y, z] = pre @ [y, z]"
  "\<exists>pre. GetPR # a @ b @ [x1, x2, y, z] = pre @ [y, z]"
  "\<exists>pre. GetPR # a @ b @ [x1, x2, x3, y, z] = pre @ [y, z]"
proof -
  show "\<exists>pre. GetPR # a @ b @ [x, y, z] = pre @ [y, z]"
    by (rule exI[of _ "GetPR # a @ b @ [x]"]) simp
  show "\<exists>pre. GetPR # a @ b @ [x1, x2, y, z] = pre @ [y, z]"
    by (rule exI[of _ "GetPR # a @ b @ [x1, x2]"]) simp
  show "\<exists>pre. GetPR # a @ b @ [x1, x2, x3, y, z] = pre @ [y, z]"
    by (rule exI[of _ "GetPR # a @ b @ [x1, x2, x3]"]) simp
qed

lemma fetch_failure:
  "pr_response w = None \<longrightarrow> main e w = \<lparr>trace = [GetPR, Console ErrGetPR], exit_status = 1\<rparr>"
  by (simp add: main_None)

lemma assign_failure:
  "AddAssignees sent \<in> set (trace (main e w)) \<and> \<not> assign_ok w \<longrightarrow>
     exit_status (main e w) = 1
     \<and> (\<exists>pre. trace (main e w) = pre @ [AddAssignees sent, Console ErrAssign])"
proof (cases "pr_response w")
  case None
  then show ?thesis by (simp add: main_None)
next
  case (Some pr)
  from main_forms[OF Some, of e] show ?thesis
    by (elim disjE exE conjE) (auto simp: trace_suffix)
qed

lemma webhook_failure:
  "WebhookPost url text \<in> set (trace (main e w)) \<and> \<not> webhook_ok w \<longrightarrow>
     exit_status (main e w) = 1
     \<and> (\<exists>pre. trace (main e w) = pre @ [WebhookPost url text, Console ErrSlack])"
proof (cases "pr_response w")
  case None
  then show ?thesis by (simp add: main_None)
next
  case (Some pr)
  from main_forms[OF Some, of e] show ?thesis
    by (elim disjE exE conjE) (auto simp: trace_suffix)
qed

lemma calls_once:
  "length (filter is_GetPR (trace (main e w))) = 1
   \<and> length (filter is_AddAssignees (trace (main e w))) \<le> 1
   \<and> length (filter is_WebhookPost (trace (main e w))) \<le> 1"
proof (cases "pr_response w")
  case None
  then show ?thesis by (simp add: main_None)
next
  case (Some pr)
  from main_forms[OF Some, of e] show ?thesis
    by (elim disjE exE conjE) simp_all
qed

text \<open>The status of the webhook's answer is never read: every answer gives the same run.\<close>

lemma notifySlack_status:
  "notifySlack e (w\<lparr>webhook_response := Responded status\<rparr>) t
     = notifySlack e (w\<lparr>webhook_response := Responded 200\<rparr>) t"
  by (simp add: notifySlack_def)

lemma send_msg_status:
  "send_msg e (w\<lparr>webhook_response := Responded status\<rparr>) m
     = send_msg e (w\<lparr>webhook_response := Responded 200\<rparr>) m"
  unfolding send_msg_def by (simp only: notifySlack_status[where e = e and w = w and status = status])

lemma assignPRsToUsers_status:
  "assignPRsToUsers (w\<lparr>webhook_response := r\<rparr>) toAdd pr = assignPRsToUsers w toAdd pr"
  by (simp add: assignPRsToUsers_def Let_def)

lemma assign_block_status:
  "assign_block e (w\<lparr>webhook_response := Responded status\<rparr>) pr userMap
     = assign_block e (w\<lparr>webhook_response := Responded 200\<rparr>) pr userMap"
proof -
  have r: "random (w\<lparr>webhook_response := x\<rparr>) = random w" for x by simp
  show ?thesis
    unfolding assign_block_def assignPRsToUsers_status r
    by (simp only: send_msg_status[where e = e and w = w and status = status])
qed

lemma response_status_ignored:
  "main e (w\<lparr>webhook_response := Responded status\<rparr>)
     = main e (w\<lparr>webhook_response := Responded 200\<rparr>)"
proof -
  have g: "getUserMap (w\<lparr>webhook_response := x\<rparr>) = getUserMap w" for x
    by (simp add: getUserMap_def)
  have p: "getPRDetails (w\<lparr>webhook_response := x\<rparr>) = getPRDetails w" for x
    by (simp add: getPRDetails_def)
  show ?thesis
    unfolding main_def g p by (simp only: assign_block_status[where e = e and w = w and status = status])
qed

text \<open>
  Claim C6 at a failing input: the \<open>opened\<close> example, with a webhook that answers the POST
  with HTTP 500. The script posts the message, prints no error and exits with status 0,
  exactly as it does when the webhook answers 200. Posting has failed and the run does
  not end with a non-zero status. When \<^verbatim>\<open>fetch\<close> itself throws, the same run ends with
  the error line and status 1, as the two Octokit calls do on any failure.
\<close>

theorem webhook_http_error_exits_zero:
  "webhook_response ((example_world [])\<lparr>webhook_response := Responded 500\<rparr>) = Responded 500
   \<and> main (example_env ''opened'') ((example_world [])\<lparr>webhook_response := Responded 500\<rparr>) =
       \<lparr>trace = [GetPR, ReadUserMap,
          Console (LogEligible [''alice'', ''bob'', ''carol'', ''dave'']),
          Console (LogCandidates [''bob'', ''carol'', ''dave'']),
          Console (LogAvailable [''bob'', ''carol'', ''dave'']),
          AddAssignees [''carol'', ''dave''],
          Console (LogMsg (msg_update (example_env ''opened'') (example_pr []) example_users
                     [''carol'', ''dave''])),
          WebhookPost ''https://example.org/hook''
            (msg_update (example_env ''opened'') (example_pr []) example_users
               [''carol'', ''dave''])],
        exit_status = 0\<rparr>
   \<and> main (example_env ''opened'') ((example_world [])\<lparr>webhook_response := Responded 500\<rparr>)
       = main (example_env ''opened'') (example_world [])
   \<and> exit_status (main (example_env ''opened'')
                     ((example_world [])\<lparr>webhook_response := Rejected\<rparr>)) = 1
   \<and> exit_status (main (example_env ''opened'') ((example_world [])\<lparr>assign_ok := False\<rparr>)) = 1
   \<and> exit_status (main (example_env ''opened'') ((example_world [])\<lparr>pr_response := None\<rparr>)) = 1"
  by (simp add: example_webhook_500 example_opened example_webhook_fails example_assign_fails
        example_fetch_fails)

section \<open>An unreadable user map\<close>

lemma getUserMap_failure:
  "user_map_file w = ReadError \<or> user_map_file w = ParseError \<or> user_map_file w = Parsed YNull \<Longrightarrow>
     getUserMap w = ([ReadUserMap, Console ErrLoadUserMap], [])"
  by (auto simp: getUserMap_def)

lemma empty_map_pool: "candidates e pr [] = []" "available e pr [] = []"
  by (simp_all add: available_def candidates_def allUsers_def)

lemma prelude_empty_map:
  "prelude e pr [] = Console WarnEmptyUserMap # Console (LogEligible [])
     # (if eventType e = Some ''unassigned'' \<and> truthy (removedAssignee e)
        then [Console (LogExcluding (js_str (removedAssignee e)))] else [])
     @ [Console (LogCandidates [])]"
  by (simp add: prelude_def allUsers_def empty_map_pool)

text \<open>
  Claim C7. If reading the user-map file throws, or parsing it throws, or the parsed
  document is \<^verbatim>\<open>null\<close> (so that \<^verbatim>\<open>parsed.users\<close> throws inside the same \<^verbatim>\<open>try\<close>), then in a
  run that got its pull request: \<open>getUserMap\<close> prints the error and returns the empty
  map; the run goes on with its console lines; the pool is empty; no add-assignees call
  is made; and the exit status is 0, unless the "no available candidates" message was
  posted to the webhook and that POST failed.
\<close>

theorem user_map_failure_degrades:
  assumes "user_map_file w = ReadError \<or> user_map_file w = ParseError
           \<or> user_map_file w = Parsed YNull"
      and "pr_response w = Some pr"
  shows "getUserMap w = ([ReadUserMap, Console ErrLoadUserMap], [])
     \<and> candidates e pr (snd (getUserMap w)) = []
     \<and> available e pr (snd (getUserMap w)) = []
     \<and> (\<exists>rest. trace (main e w) =
            [GetPR, ReadUserMap, Console ErrLoadUserMap, Console WarnEmptyUserMap,
             Console (LogEligible [])] @ rest
          \<and> Console (LogCandidates []) \<in> set rest)
     \<and> filter is_AddAssignees (trace (main e w)) = []
     \<and> (exit_status (main e w) = 0
         \<or> (exit_status (main e w) = 1 \<and> shouldAssign e pr \<and> 0 < needed pr
             \<and> WebhookPost (js_str (SLACK_WEBHOOK e)) (msg_no_candidates e pr)
                  \<in> set (trace (main e w))
             \<and> \<not> webhook_ok w))"
proof -
  have g: "getUserMap w = ([ReadUserMap, Console ErrLoadUserMap], [])"
    using assms(1) by (rule getUserMap_failure)
  have c: "candidates e pr (snd (getUserMap w)) = []" "available e pr (snd (getUserMap w)) = []"
    by (simp_all add: g empty_map_pool)
  have blk: "assign_block e w pr [] =
        (Console (LogAvailable []) # fst (send_msg e w (Some (msg_no_candidates e pr))),
         snd (send_msg e w (Some (msg_no_candidates e pr))))" if "0 < needed pr"
    using that by (simp add: assign_block_def Let_def empty_map_pool select_loop_Nil split: prod.splits)
  have tr: "\<exists>rest. trace (main e w) =
            [GetPR, ReadUserMap, Console ErrLoadUserMap, Console WarnEmptyUserMap,
             Console (LogEligible [])] @ rest
          \<and> Console (LogCandidates []) \<in> set rest"
  proof -
    obtain tail where "trace (main e w) = GetPR # fst (getUserMap w) @ prelude e pr (snd (getUserMap w)) @ tail"
      using main_forms[OF assms(2), of e] by (elim disjE exE conjE) simp_all
    then have "trace (main e w) =
            [GetPR, ReadUserMap, Console ErrLoadUserMap, Console WarnEmptyUserMap,
             Console (LogEligible [])]
            @ ((if eventType e = Some ''unassigned'' \<and> truthy (removedAssignee e)
                then [Console (LogExcluding (js_str (removedAssignee e)))] else [])
               @ [Console (LogCandidates [])] @ tail)"
      by (simp add: g prelude_empty_map)
    then show ?thesis by (intro exI conjI, assumption) simp
  qed
  have na: "filter is_AddAssignees (trace (main e w)) = []"
  proof (cases "shouldAssign e pr \<and> 0 < needed pr")
    case True
    then show ?thesis using main_selecting[OF assms(2), of e] blk by (simp add: g)
  next
    case False
    then show ?thesis
    proof (cases "shouldAssign e pr")
      case True
      with False have "2 \<le> length (assignees pr)" by (simp add: needed_def)
      from main_enough[OF assms(2) this, of e] show ?thesis by simp
    next
      case nsa: False
      from main_not_shouldAssign[OF assms(2) nsa] show ?thesis by simp
    qed
  qed
  have ex: "exit_status (main e w) = 0
         \<or> (exit_status (main e w) = 1 \<and> shouldAssign e pr \<and> 0 < needed pr
             \<and> WebhookPost (js_str (SLACK_WEBHOOK e)) (msg_no_candidates e pr)
                  \<in> set (trace (main e w))
             \<and> \<not> webhook_ok w)"
  proof (cases "shouldAssign e pr \<and> 0 < needed pr")
    case True
    then have m: "main e w = \<lparr>trace = GetPR # fst (getUserMap w) @ prelude e pr (snd (getUserMap w))
                        @ Console (LogAvailable []) # fst (send_msg e w (Some (msg_no_candidates e pr))),
                      exit_status = (if snd (send_msg e w (Some (msg_no_candidates e pr))) then 0 else 1)\<rparr>"
      using main_selecting[OF assms(2), of e] blk by (simp add: g)
    show ?thesis
      using send_msg_Some_shape[of "msg_no_candidates e pr" e w, OF msg_nonempty(4)] True
      by (elim disjE conjE) (simp_all add: m)
  next
    case False
    then show ?thesis
    proof (cases "shouldAssign e pr")
      case True
      with False have "2 \<le> length (assignees pr)" by (simp add: needed_def)
      from main_enough[OF assms(2) this, of e] show ?thesis by simp
    next
      case nsa: False
      from main_not_shouldAssign[OF assms(2) nsa] show ?thesis by simp
    qed
  qed
  from g c tr na ex show ?thesis by blast
qed

text \<open>The \<open>opened\<close> example with a user-map file that cannot be read.\<close>

theorem user_map_failure_degrades_witness:
  "user_map_file ((example_world [])\<lparr>user_map_file := ReadError\<rparr>) = ReadError
   \<and> pr_response ((example_world [])\<lparr>user_map_file := ReadError\<rparr>) = Some (example_pr [])
   \<and> getUserMap ((example_world [])\<lparr>user_map_file := ReadError\<rparr>)
       = ([ReadUserMap, Console ErrLoadUserMap], [])
   \<and> available (example_env ''opened'') (example_pr [])
        (snd (getUserMap ((example_world [])\<lparr>user_map_file := ReadError\<rparr>))) = []
   \<and> filter is_AddAssignees
        (trace (main (example_env ''opened'') ((example_world [])\<lparr>user_map_file := ReadError\<rparr>))) = []
   \<and> exit_status (main (example_env ''opened'') ((example_world [])\<lparr>user_map_file := ReadError\<rparr>)) = 0"
proof -
  let ?w = "(example_world [])\<lparr>user_map_file := ReadError\<rparr>"
  have f: "user_map_file ?w = ReadError" by simp
  then have f': "user_map_file ?w = ReadError \<or> user_map_file ?w = ParseError
           \<or> user_map_file ?w = Parsed YNull" by (rule disjI1)
  have p: "pr_response ?w = Some (example_pr [])" by (simp add: example_world_def)
  have x: "exit_status (main (example_env ''opened'') ?w) = 0" by (simp add: example_no_map)
  from user_map_failure_degrades[OF f' p, of "example_env ''opened''"] f p x
  show ?thesis by blast
qed

end
